theory Spec2Isabelle
  imports Complex_Main
begin

section \<open>JavaScript values used by the booking form\<close>

text \<open>
  A value read from a row or from the form is a string or \<open>undefined\<close>; it is modelled
  as a \<open>string option\<close> with \<open>None\<close> for \<open>undefined\<close>. A value is truthy when it is a
  non-empty string.
\<close>

fun truthy :: "string option \<Rightarrow> bool" where
  "truthy None = False"
| "truthy (Some s) = (s \<noteq> [])"

text \<open>\<open>a || b\<close> where \<open>b\<close> may itself be undefined.\<close>

definition or_opt :: "string option \<Rightarrow> string option \<Rightarrow> string option" where
  "or_opt a b = (if truthy a then a else b)"

text \<open>\<open>a || 'text'\<close> where the right operand is a string literal.\<close>

definition or_str :: "string option \<Rightarrow> string \<Rightarrow> string" where
  "or_str a b = (case a of None \<Rightarrow> b | Some s \<Rightarrow> if s \<noteq> [] then s else b)"

text \<open>\<open>Boolean\<close> as the callback of \<open>filter\<close> on an array of strings.\<close>

definition Boolean :: "string \<Rightarrow> bool" where
  "Boolean s = (s \<noteq> [])"

text \<open>
  \<open>[...new Set(xs)]\<close>: a Set keeps the first occurrence of every value, in insertion
  order.
\<close>

definition Set_add :: "'a list \<Rightarrow> 'a \<Rightarrow> 'a list" where
  "Set_add s x = (if x \<in> set s then s else s @ [x])"

definition new_Set :: "'a list \<Rightarrow> 'a list" where
  "new_Set xs = foldl Set_add [] xs"

text \<open>\<open>s.substr(start, length)\<close> for non-negative arguments.\<close>

definition substr :: "string \<Rightarrow> nat \<Rightarrow> nat \<Rightarrow> string" where
  "substr s start len = take len (drop start s)"

text \<open>
  A JavaScript number: not-a-number, the two infinities, or a finite value (a finite
  double is a real number).
\<close>

datatype number = NaN | NegInfinity | Finite real | PosInfinity

text \<open>\<open>x >= c\<close> and \<open>x > c\<close> for a finite constant \<open>c\<close>.\<close>

fun number_ge :: "number \<Rightarrow> real \<Rightarrow> bool" where
  "number_ge NaN c = False"
| "number_ge NegInfinity c = False"
| "number_ge (Finite r) c = (c \<le> r)"
| "number_ge PosInfinity c = True"

fun number_gt :: "number \<Rightarrow> real \<Rightarrow> bool" where
  "number_gt NaN c = False"
| "number_gt NegInfinity c = False"
| "number_gt (Finite r) c = (c < r)"
| "number_gt PosInfinity c = True"

text \<open>Decimal rendering of a natural number, as in a template literal.\<close>

definition digit_char :: "nat \<Rightarrow> char" where
  "digit_char d = ''0123456789'' ! d"

function show_nat :: "nat \<Rightarrow> string" where
  "show_nat n = (if n < 10 then [digit_char n] else show_nat (n div 10) @ [digit_char (n mod 10)])"
  by pat_completeness auto
termination
  by (relation "measure (\<lambda>n. n)") auto

declare show_nat.simps [simp del]

text \<open>JSON values that occur in a request body.\<close>

datatype json = JString string | JNumber real | JNull

type_synonym json_object = "(string \<times> json) list"

text \<open>\<open>JSON.stringify\<close> writes a number that is not finite as \<open>null\<close>.\<close>

fun json_of_number :: "number \<Rightarrow> json" where
  "json_of_number (Finite r) = JNumber r"
| "json_of_number NaN = JNull"
| "json_of_number NegInfinity = JNull"
| "json_of_number PosInfinity = JNull"

section \<open>services/api: the remote data gateway\<close>

definition BASE_URL :: string where
  "BASE_URL = ''https://script.google.com/macros/s/AKfycbyntLYWPYjVJ5YQLUFGd9PsJGWTalk38lVRAh3NrwHImaILEjx8SZDkm5pj_m78qC7vaA/exec''"

record 'a ApiResponse =
  success :: bool
  data :: "'a option"
  message :: "string option"

record OptionData =
  Type_Order_Donation :: string
  Category :: string
  Department :: string
  From_Department :: string
  To_Department :: string
  Personal_Account_Details :: string

record ExpenseData =
  Items :: string
  Details :: string
  Budget :: string
  Spent :: string
  Incharge :: string

text \<open>
  A donor row. The sheet exports the mobile number under \<open>Mobile No.\<close> or under
  \<open>Mobile No\<close>, so a row may lack either column; these two are optional here
  (\<open>Mobile_No_dot\<close> is the spelling with the period).
\<close>

record DonorData =
  Donor_ID :: string
  Donor_Name :: string
  Address :: string
  PAN_No :: string
  Mobile_No_dot :: "string option"
  Mobile_No :: "string option"

text \<open>
  The record sent to the backend. Its fields are those of the interface
  \<open>BookingData\<close>, prefixed with \<open>bk_\<close> because the form's data has fields of the same
  names.
\<close>

record BookingData =
  bk_id :: string
  bk_date :: string
  bk_fromDepartment :: string
  bk_toDepartment :: string
  bk_personalAccount :: string
  bk_donorDetails :: string
  bk_category :: string
  bk_item :: string
  bk_detail :: string
  bk_particulars :: string
  bk_amount :: number

record SavedId =
  saved_id :: string

text \<open>
  The second argument of \<open>fetch\<close>; every member is optional (\<open>http_method\<close> is the
  member \<open>method\<close>).
\<close>

record RequestInit =
  http_method :: "string option"
  headers :: "(string \<times> string) list option"
  body :: "json_object option"

text \<open>
  A value that is thrown: an instance of \<open>Error\<close> with its message, or anything else.
\<close>

datatype thrown = Error string | NotAnError

text \<open>
  What the platform does with one call of \<open>fetch\<close>: the promise rejects
  (connection failure), or a response arrives with a status, whose \<open>json()\<close>
  either throws (the body is not JSON) or yields the parsed envelope.
\<close>

datatype 'a json_result = Unparseable thrown | Parsed "'a ApiResponse"

datatype 'a fetch_outcome = Rejected thrown | Response nat "'a json_result"

text \<open>\<open>response.ok\<close>: the status is in the range 200 to 299.\<close>

definition ok :: "nat \<Rightarrow> bool" where
  "ok status = (200 \<le> status \<and> status \<le> 299)"

type_synonym 'a fetch = "string \<Rightarrow> RequestInit \<Rightarrow> 'a fetch_outcome"

text \<open>The requests issued so far, oldest first.\<close>

type_synonym request_log = "(string \<times> RequestInit) list"

text \<open>
  \<open>{...options, headers: {...(options?.headers || {})}}\<close>: the members of \<open>options\<close>
  with a headers object that is always present.
\<close>

definition spread_options :: "RequestInit option \<Rightarrow> RequestInit" where
  "spread_options options =
     (case options of
        None \<Rightarrow> \<lparr>http_method = None, headers = Some [], body = None\<rparr>
      | Some opts \<Rightarrow>
          opts\<lparr>headers := Some (case headers opts of None \<Rightarrow> [] | Some h \<Rightarrow> h)\<rparr>)"

text \<open>
  The body of the \<open>try\<close> block of \<open>makeRequest\<close>: \<open>Inl\<close> is an exception on its way
  to the \<open>catch\<close> clause.
\<close>

definition makeRequest_try :: "'a fetch_outcome \<Rightarrow> thrown + 'a ApiResponse" where
  "makeRequest_try outcome =
     (case outcome of
        Rejected e \<Rightarrow> Inl e
      | Response status js \<Rightarrow>
          if \<not> ok status then Inl (Error (''HTTP error! status: '' @ show_nat status))
          else (case js of Unparseable e \<Rightarrow> Inl e | Parsed result \<Rightarrow> Inr result))"

text \<open>The \<open>catch\<close> clause of \<open>makeRequest\<close>.\<close>

definition makeRequest_catch :: "thrown \<Rightarrow> 'a ApiResponse" where
  "makeRequest_catch error =
     \<lparr>success = False, data = None,
      message = Some (case error of Error m \<Rightarrow> m | NotAnError \<Rightarrow> ''Unknown error occurred'')\<rparr>"

text \<open>
  \<open>makeRequest\<close> returns (\<open>Inr\<close>) or raises to its caller (\<open>Inl\<close>); it also records
  the request it issued.
\<close>

definition makeRequest ::
  "'a fetch \<Rightarrow> string \<Rightarrow> RequestInit option \<Rightarrow> request_log
     \<Rightarrow> (thrown + 'a ApiResponse) \<times> request_log" where
  "makeRequest fetch url options reqs =
     (let init = spread_options options;
          reqs' = reqs @ [(url, init)]
      in (case makeRequest_try (fetch url init) of
            Inr result \<Rightarrow> (Inr result, reqs')
          | Inl error \<Rightarrow> (Inr (makeRequest_catch error), reqs')))"

definition getOptions ::
  "OptionData list fetch \<Rightarrow> request_log
     \<Rightarrow> (thrown + OptionData list ApiResponse) \<times> request_log" where
  "getOptions fetch reqs = makeRequest fetch (BASE_URL @ ''?action=getOptions'') None reqs"

definition getExpenses ::
  "ExpenseData list fetch \<Rightarrow> request_log
     \<Rightarrow> (thrown + ExpenseData list ApiResponse) \<times> request_log" where
  "getExpenses fetch reqs = makeRequest fetch (BASE_URL @ ''?action=getExpenses'') None reqs"

definition getDonors ::
  "DonorData list fetch \<Rightarrow> request_log
     \<Rightarrow> (thrown + DonorData list ApiResponse) \<times> request_log" where
  "getDonors fetch reqs = makeRequest fetch (BASE_URL @ ''?action=getDonors'') None reqs"

text \<open>
  Modelled from the spec: \<open>getBookings\<close>, which the form calls and which is missing from
  the gateway's source as given; the spec lists it among the reads, with the action
  \<open>getBookings\<close>.
\<close>

definition getBookings ::
  "BookingData list fetch \<Rightarrow> request_log
     \<Rightarrow> (thrown + BookingData list ApiResponse) \<times> request_log" where
  "getBookings fetch reqs = makeRequest fetch (BASE_URL @ ''?action=getBookings'') None reqs"

text \<open>\<open>{action: 'saveBooking', ...bookingData}\<close> as \<open>JSON.stringify\<close> writes it.\<close>

definition saveBooking_body :: "BookingData \<Rightarrow> json_object" where
  "saveBooking_body bookingData =
     [(''action'', JString ''saveBooking''),
      (''id'', JString (bk_id bookingData)),
      (''date'', JString (bk_date bookingData)),
      (''fromDepartment'', JString (bk_fromDepartment bookingData)),
      (''toDepartment'', JString (bk_toDepartment bookingData)),
      (''personalAccount'', JString (bk_personalAccount bookingData)),
      (''donorDetails'', JString (bk_donorDetails bookingData)),
      (''category'', JString (bk_category bookingData)),
      (''item'', JString (bk_item bookingData)),
      (''detail'', JString (bk_detail bookingData)),
      (''particulars'', JString (bk_particulars bookingData)),
      (''amount'', json_of_number (bk_amount bookingData))]"

text \<open>The options object that \<open>saveBooking\<close> passes to \<open>makeRequest\<close>.\<close>

definition saveBooking_options :: "BookingData \<Rightarrow> RequestInit" where
  "saveBooking_options bookingData =
     \<lparr>http_method = Some ''POST'',
      headers = Some [(''Content-Type'', ''text/plain;charset=utf-8'')],
      body = Some (saveBooking_body bookingData)\<rparr>"

definition saveBooking ::
  "SavedId fetch \<Rightarrow> BookingData \<Rightarrow> request_log
     \<Rightarrow> (thrown + SavedId ApiResponse) \<times> request_log" where
  "saveBooking fetch bookingData reqs =
     makeRequest fetch BASE_URL (Some (saveBooking_options bookingData)) reqs"

section \<open>components/BookingForm: data of the form\<close>

text \<open>
  A valid \<open>Date\<close> as \<open>format\<close> of date-fns reads it: the calendar day in local time,
  in the common era.
\<close>

record Date =
  year :: nat
  month :: nat
  day :: nat

text \<open>
  \<open>format(date, 'yyyy-MM-dd')\<close> of date-fns: each number is written in decimal
  and padded with zeros on the left to four, two and two digits.
\<close>

definition addLeadingZeros :: "nat \<Rightarrow> nat \<Rightarrow> string" where
  "addLeadingZeros n targetLength =
     replicate (targetLength - length (show_nat n)) (CHR ''0'') @ show_nat n"

definition format_yyyy_MM_dd :: "Date \<Rightarrow> string" where
  "format_yyyy_MM_dd d =
     addLeadingZeros (year d) 4 @ ''-'' @ addLeadingZeros (month d) 2 @ ''-'' @
     addLeadingZeros (day d) 2"

text \<open>
  The values the form holds, which are the input of the schema. \<open>v_date\<close> is \<open>None\<close>
  when the field holds no valid \<open>Date\<close>; a text field is \<open>None\<close> while it is undefined;
  \<open>v_amount\<close> is the field's content after the coercion \<open>Number(...)\<close> of
  \<open>z.coerce.number()\<close>.
\<close>

record FormValues =
  v_date :: "Date option"
  v_fromDepartment :: "string option"
  v_toDepartment :: "string option"
  v_personalAccount :: "string option"
  v_donorDetails :: "string option"
  v_category :: "string option"
  v_item :: "string option"
  v_detail :: "string option"
  v_particulars :: "string option"
  v_amount :: number

text \<open>\<open>BookingFormData\<close>, the output of the schema.\<close>

record BookingFormData =
  date :: Date
  fromDepartment :: string
  toDepartment :: string
  personalAccount :: "string option"
  donorDetails :: "string option"
  category :: "string option"
  item :: "string option"
  detail :: "string option"
  particulars :: string
  amount :: number

text \<open>\<open>z.string().min(n)\<close>: a string of at least \<open>n\<close> characters.\<close>

definition string_min :: "nat \<Rightarrow> string option \<Rightarrow> bool" where
  "string_min n v = (case v of None \<Rightarrow> False | Some s \<Rightarrow> n \<le> length s)"

text \<open>
  \<open>bookingSchema\<close>: the fields that fail (\<open>Inl\<close>, never empty) or the parsed data.
  The five optional fields accept every string and \<open>undefined\<close>.
\<close>

definition bookingSchema_issues :: "FormValues \<Rightarrow> string list" where
  "bookingSchema_issues v =
     (if v_date v = None then [''date''] else []) @
     (if string_min 1 (v_fromDepartment v) then [] else [''fromDepartment'']) @
     (if string_min 1 (v_toDepartment v) then [] else [''toDepartment'']) @
     (if string_min 1 (v_particulars v) then [] else [''particulars'']) @
     (if number_ge (v_amount v) 0.01 then [] else [''amount''])"

definition bookingSchema :: "FormValues \<Rightarrow> string list + BookingFormData" where
  "bookingSchema v =
     (case (v_date v, v_fromDepartment v, v_toDepartment v, v_particulars v) of
        (Some d, Some f, Some t, Some p) \<Rightarrow>
          if bookingSchema_issues v = []
          then Inr \<lparr>date = d, fromDepartment = f, toDepartment = t,
                    personalAccount = v_personalAccount v, donorDetails = v_donorDetails v,
                    category = v_category v, item = v_item v, detail = v_detail v,
                    particulars = p, amount = v_amount v\<rparr>
          else Inl (bookingSchema_issues v)
      | _ \<Rightarrow> Inl (bookingSchema_issues v))"

text \<open>The \<open>defaultValues\<close> of the form, also the argument of \<open>form.reset\<close>.\<close>

definition defaultValues :: "Date \<Rightarrow> FormValues" where
  "defaultValues now =
     \<lparr>v_date = Some now, v_fromDepartment = None, v_toDepartment = None,
      v_personalAccount = None, v_donorDetails = None, v_category = None, v_item = None,
      v_detail = None, v_particulars = Some [], v_amount = Finite 0\<rparr>"

section \<open>components/BookingForm: derived options and visibility\<close>

text \<open>
  \<open>Math.random().toString(36)\<close>: the random number lies in \<open>[0, 1)\<close>, and its rendering
  in radix 36 is \<open>0\<close> for zero and otherwise \<open>0.\<close> followed by the digits of the
  fraction. The digits are the input here; which digits the engine prints for a double
  is not modelled.
\<close>

definition digit36 :: "nat \<Rightarrow> char" where
  "digit36 d = ''0123456789abcdefghijklmnopqrstuvwxyz'' ! d"

definition toString36 :: "nat list \<Rightarrow> string" where
  "toString36 ds = (if ds = [] then ''0'' else ''0.'' @ map digit36 ds)"

definition generateId :: "nat list \<Rightarrow> string" where
  "generateId ds = substr (toString36 ds) 2 8"

definition getUniqueOptions :: "(OptionData \<Rightarrow> string) \<Rightarrow> OptionData list \<Rightarrow> string list" where
  "getUniqueOptions field opts = new_Set (filter Boolean (map field opts))"

definition getFilteredCategories :: "OptionData list \<Rightarrow> string list" where
  "getFilteredCategories opts =
     filter Boolean
       (map Category
         (filter (\<lambda>opt. Department opt = ''Books Dasosmi'' \<and> Type_Order_Donation opt = ''Expense'')
            opts))"

definition getDetailsForItem :: "ExpenseData list \<Rightarrow> string \<Rightarrow> string list" where
  "getDetailsForItem exps selectedItem =
     filter Boolean (map Details (filter (\<lambda>exp. Items exp = selectedItem) exps))"

text \<open>The options of the item field: \<open>[...new Set(expenses.map(...).filter(Boolean))]\<close>.\<close>

definition itemOptions :: "ExpenseData list \<Rightarrow> string list" where
  "itemOptions exps = new_Set (filter Boolean (map Items exps))"

text \<open>
  The watched values \<open>fromDepartment\<close> and \<open>toDepartment\<close> are undefined until a
  department is chosen.
\<close>

definition showCategory :: "string option \<Rightarrow> bool" where
  "showCategory fromDept = (fromDept = Some ''Books-Dasosmi'')"

definition showItemsDetails :: "string option \<Rightarrow> bool" where
  "showItemsDetails fromDept = (fromDept = Some ''Expenses-Dasosmi'')"

definition showDonorDetails :: "string option \<Rightarrow> bool" where
  "showDonorDetails fromDept =
     (fromDept = Some ''Dasosmi'' \<or> fromDept = Some ''Corporate Dasosmi'')"

definition showPersonalAccount :: "string option \<Rightarrow> bool" where
  "showPersonalAccount toDept = (toDept = Some ''Personal Account'')"

text \<open>
  What the category field and the details field offer: \<open>None\<close> when the field is not
  rendered, otherwise the values of its \<open>SelectItem\<close>s in order.
\<close>

definition categoryField :: "string option \<Rightarrow> OptionData list \<Rightarrow> string list option" where
  "categoryField fromDept opts =
     (if showCategory fromDept then Some (getFilteredCategories opts) else None)"

definition detailField ::
  "string option \<Rightarrow> string option \<Rightarrow> ExpenseData list \<Rightarrow> string list option" where
  "detailField fromDept selected exps =
     (case selected of
        None \<Rightarrow> None
      | Some i \<Rightarrow>
          if showItemsDetails fromDept \<and> i \<noteq> [] then Some (getDetailsForItem exps i) else None)"

text \<open>The donor field: the label of the button, and the value and label of each item.\<close>

definition donorButtonLabel :: "DonorData list \<Rightarrow> string option \<Rightarrow> string" where
  "donorButtonLabel ds fieldValue =
     (if truthy fieldValue
      then (case find (\<lambda>d. Some (Donor_ID d) = fieldValue) ds of
              Some donor \<Rightarrow>
                Donor_Name donor @ '' - '' @
                or_str (or_opt (Mobile_No_dot donor) (Mobile_No donor)) ''No Mobile''
            | None \<Rightarrow> ''Select donor...'')
      else ''Select donor...'')"

definition donorItemValue :: "DonorData \<Rightarrow> string" where
  "donorItemValue donor =
     Donor_Name donor @ '' '' @ or_str (or_opt (Mobile_No_dot donor) (Mobile_No donor)) [] @
     '' '' @ Address donor"

definition donorItemLabel :: "DonorData \<Rightarrow> string" where
  "donorItemLabel donor =
     Donor_Name donor @ '' - '' @
     or_str (or_opt (Mobile_No_dot donor) (Mobile_No donor)) ''No Mobile'' @ '' - '' @
     Address donor"

section \<open>components/BookingForm: state, loading and submission\<close>

record Toast =
  title :: string
  description :: string
  variant :: "string option"

text \<open>
  The state of the component: its \<open>useState\<close> slots, the values and the validation
  errors held by the form, the notifications shown, and the requests issued.
\<close>

record State =
  options :: "OptionData list"
  expenses :: "ExpenseData list"
  donors :: "DonorData list"
  bookings :: "BookingData list"
  loading :: bool
  submitting :: bool
  donorSearchOpen :: bool
  form :: FormValues
  errors :: "string list"
  toasts :: "Toast list"
  requests :: request_log

text \<open>
  What the surroundings supply: the behaviour of \<open>fetch\<close> for each kind of payload,
  the digits of \<open>Math.random()\<close>, and \<open>new Date()\<close>.
\<close>

record Env =
  fetchOptions :: "OptionData list fetch"
  fetchExpenses :: "ExpenseData list fetch"
  fetchDonors :: "DonorData list fetch"
  fetchBookings :: "BookingData list fetch"
  fetchSave :: "SavedId fetch"
  random_digits :: "nat list"
  today :: Date

text \<open>The state a freshly mounted component starts from.\<close>

definition initialState :: "Date \<Rightarrow> State" where
  "initialState now =
     \<lparr>options = [], expenses = [], donors = [], bookings = [], loading = True,
      submitting = False, donorSearchOpen = False, form = defaultValues now, errors = [],
      toasts = [], requests = []\<rparr>"

definition toast :: "Toast \<Rightarrow> State \<Rightarrow> State" where
  "toast t st = st\<lparr>toasts := toasts st @ [t]\<rparr>"

text \<open>\<open>await Promise.all([p1, p2, p3, p4])\<close>: the four results, or a rejection.\<close>

definition Promise_all4 ::
  "thrown + 'a \<Rightarrow> thrown + 'b \<Rightarrow> thrown + 'c \<Rightarrow> thrown + 'd \<Rightarrow> thrown + ('a \<times> 'b \<times> 'c \<times> 'd)" where
  "Promise_all4 p1 p2 p3 p4 =
     (case p1 of Inl e \<Rightarrow> Inl e | Inr r1 \<Rightarrow>
      (case p2 of Inl e \<Rightarrow> Inl e | Inr r2 \<Rightarrow>
       (case p3 of Inl e \<Rightarrow> Inl e | Inr r3 \<Rightarrow>
        (case p4 of Inl e \<Rightarrow> Inl e | Inr r4 \<Rightarrow> Inr (r1, r2, r3, r4)))))"

text \<open>
  The \<open>try\<close> block of \<open>loadData\<close>: the four reads are issued, then each slot is set
  when its read has \<open>success\<close> and \<open>data\<close>. The first component is the exception that
  leaves the block, if any.
\<close>

definition loadData_try :: "Env \<Rightarrow> State \<Rightarrow> thrown option \<times> State" where
  "loadData_try env st =
     (let (p1, reqs1) = getOptions (fetchOptions env) (requests st);
          (p2, reqs2) = getExpenses (fetchExpenses env) reqs1;
          (p3, reqs3) = getDonors (fetchDonors env) reqs2;
          (p4, reqs4) = getBookings (fetchBookings env) reqs3;
          st0 = st\<lparr>requests := reqs4\<rparr>
      in (case Promise_all4 p1 p2 p3 p4 of
            Inl e \<Rightarrow> (Some e, st0)
          | Inr (optionsRes, expensesRes, donorsRes, bookingsRes) \<Rightarrow>
              (let st1 = (case data optionsRes of
                            Some rows \<Rightarrow> if success optionsRes then st0\<lparr>options := rows\<rparr> else st0
                          | None \<Rightarrow> st0);
                   st2 = (case data expensesRes of
                            Some rows \<Rightarrow> if success expensesRes then st1\<lparr>expenses := rows\<rparr> else st1
                          | None \<Rightarrow> st1);
                   st3 = (case data donorsRes of
                            Some rows \<Rightarrow> if success donorsRes then st2\<lparr>donors := rows\<rparr> else st2
                          | None \<Rightarrow> st2);
                   st4 = (case data bookingsRes of
                            Some rows \<Rightarrow> if success bookingsRes then st3\<lparr>bookings := rows\<rparr> else st3
                          | None \<Rightarrow> st3)
               in (None, st4))))"

text \<open>\<open>loadData\<close> with its \<open>catch\<close> and \<open>finally\<close> clauses.\<close>

definition loadData :: "Env \<Rightarrow> State \<Rightarrow> State" where
  "loadData env st =
     (case loadData_try env st of
        (None, st') \<Rightarrow> st'\<lparr>loading := False\<rparr>
      | (Some error, st') \<Rightarrow>
          (toast \<lparr>title = ''Error'', description = ''Failed to load data from server'',
                  variant = Some ''destructive''\<rparr> st')\<lparr>loading := False\<rparr>)"

text \<open>The object \<open>bookingData\<close> that \<open>onSubmit\<close> builds, given the generated id.\<close>

definition bookingData_of :: "string \<Rightarrow> BookingFormData \<Rightarrow> BookingData" where
  "bookingData_of new_id d =
     \<lparr>bk_id = new_id,
      bk_date = format_yyyy_MM_dd (date d),
      bk_fromDepartment = fromDepartment d,
      bk_toDepartment = toDepartment d,
      bk_personalAccount = or_str (personalAccount d) [],
      bk_donorDetails = or_str (donorDetails d) [],
      bk_category = or_str (category d) [],
      bk_item = or_str (item d) [],
      bk_detail = or_str (detail d) [],
      bk_particulars = particulars d,
      bk_amount = amount d\<rparr>"

text \<open>
  The \<open>try\<close> block of \<open>onSubmit\<close>. A write that does not succeed throws an \<open>Error\<close>
  with the returned message or the fallback text; a successful one notifies, resets the
  form and reloads the bookings.
\<close>

definition onSubmit_try :: "Env \<Rightarrow> BookingFormData \<Rightarrow> State \<Rightarrow> thrown option \<times> State" where
  "onSubmit_try env d st =
     (let bookingData = bookingData_of (generateId (random_digits env)) d
      in (case saveBooking (fetchSave env) bookingData (requests st) of
            (Inl e, reqs1) \<Rightarrow> (Some e, st\<lparr>requests := reqs1\<rparr>)
          | (Inr result, reqs1) \<Rightarrow>
              (let st1 = st\<lparr>requests := reqs1\<rparr>
               in if success result
                  then (let st2 = toast \<lparr>title = ''Success'',
                                         description = ''Booking saved successfully with ID: '' @
                                                       bk_id bookingData,
                                         variant = None\<rparr> st1;
                            st3 = st2\<lparr>form := defaultValues (today env), errors := []\<rparr>
                        in (case getBookings (fetchBookings env) (requests st3) of
                              (Inl e, reqs2) \<Rightarrow> (Some e, st3\<lparr>requests := reqs2\<rparr>)
                            | (Inr bookingsRes, reqs2) \<Rightarrow>
                                (let st4 = st3\<lparr>requests := reqs2\<rparr>
                                 in (None,
                                     (case data bookingsRes of
                                        Some rows \<Rightarrow>
                                          if success bookingsRes then st4\<lparr>bookings := rows\<rparr>
                                          else st4
                                      | None \<Rightarrow> st4)))))
                  else (Some (Error (or_str (message result) ''Failed to save booking'')), st1))))"

text \<open>\<open>onSubmit\<close> with its \<open>catch\<close> and \<open>finally\<close> clauses.\<close>

definition onSubmit :: "Env \<Rightarrow> BookingFormData \<Rightarrow> State \<Rightarrow> State" where
  "onSubmit env d st =
     (case onSubmit_try env d (st\<lparr>submitting := True\<rparr>) of
        (None, st') \<Rightarrow> st'\<lparr>submitting := False\<rparr>
      | (Some error, st') \<Rightarrow>
          (toast \<lparr>title = ''Error'',
                  description = (case error of Error m \<Rightarrow> m
                                 | NotAnError \<Rightarrow> ''Failed to save booking''),
                  variant = Some ''destructive''\<rparr> st')\<lparr>submitting := False\<rparr>)"

text \<open>
  \<open>form.handleSubmit(onSubmit)\<close>: the resolver validates the values of the form; with
  issues it records them and does not call \<open>onSubmit\<close>.
\<close>

definition handleSubmit :: "Env \<Rightarrow> State \<Rightarrow> State" where
  "handleSubmit env st =
     (case bookingSchema (form st) of
        Inl issues \<Rightarrow> st\<lparr>errors := issues\<rparr>
      | Inr d \<Rightarrow> onSubmit env d (st\<lparr>errors := []\<rparr>))"

section \<open>Notions of the specification\<close>

text \<open>
  The failure modes of a request: the connection fails, the status is not 2xx, or the
  body cannot be parsed.
\<close>

definition failure_mode :: "'a fetch_outcome \<Rightarrow> bool" where
  "failure_mode outcome =
     (case outcome of
        Rejected e \<Rightarrow> True
      | Response status js \<Rightarrow>
          if ok status then (case js of Unparseable e \<Rightarrow> True | Parsed r \<Rightarrow> False) else True)"

text \<open>
  The text of a failure: for a status that is not 2xx the text \<open>HTTP error! status: n\<close>;
  for a failed connection or an unparseable body the message of the \<open>Error\<close> that the
  platform raised, or \<open>Unknown error occurred\<close> when the raised value is not an \<open>Error\<close>.
\<close>

definition thrown_text :: "thrown \<Rightarrow> string" where
  "thrown_text e = (case e of Error m \<Rightarrow> m | NotAnError \<Rightarrow> ''Unknown error occurred'')"

definition failure_text :: "'a fetch_outcome \<Rightarrow> string" where
  "failure_text outcome =
     (case outcome of
        Rejected e \<Rightarrow> thrown_text e
      | Response status js \<Rightarrow>
          if ok status then (case js of Unparseable e \<Rightarrow> thrown_text e | Parsed r \<Rightarrow> [])
          else ''HTTP error! status: '' @ show_nat status)"

text \<open>
  The envelope of a failure: returned, not raised, with \<open>success = false\<close>, no data and
  the text of the failure as its message.
\<close>

definition failure_reply :: "'a fetch_outcome \<Rightarrow> thrown + 'a ApiResponse" where
  "failure_reply outcome =
     Inr \<lparr>success = False, data = None, message = Some (failure_text outcome)\<rparr>"

text \<open>
  The platform raised an \<open>Error\<close> whose message is empty, and the raised error is the one
  that decides the failure (the connection failed, or the status is 2xx and the body is
  unparseable).
\<close>

definition empty_error :: "'a fetch_outcome \<Rightarrow> bool" where
  "empty_error outcome =
     (case outcome of
        Rejected e \<Rightarrow> (case e of Error m \<Rightarrow> m = [] | NotAnError \<Rightarrow> False)
      | Response status js \<Rightarrow>
          ok status \<and>
          (case js of
             Unparseable e \<Rightarrow> (case e of Error m \<Rightarrow> m = [] | NotAnError \<Rightarrow> False)
           | Parsed r \<Rightarrow> False))"

text \<open>
  The result as first specified for every failure: a returned envelope, not an
  exception, with \<open>success = false\<close>, a non-empty message and no data.
\<close>

definition failure_envelope :: "thrown + 'a ApiResponse \<Rightarrow> bool" where
  "failure_envelope r =
     (case r of
        Inl e \<Rightarrow> False
      | Inr res \<Rightarrow>
          \<not> success res \<and> data res = None \<and>
          (case message res of None \<Rightarrow> False | Some m \<Rightarrow> m \<noteq> []))"

text \<open>The first of the given values that is a non-empty string, if there is one.\<close>

fun first_non_empty :: "string option list \<Rightarrow> string option" where
  "first_non_empty [] = None"
| "first_non_empty (x # xs) = (if truthy x then x else first_non_empty xs)"

text \<open>The base-36 digits: \<open>0\<close> to \<open>9\<close> and lowercase \<open>a\<close> to \<open>z\<close>.\<close>

definition is_base36 :: "char \<Rightarrow> bool" where
  "is_base36 c = (c \<in> set ''0123456789abcdefghijklmnopqrstuvwxyz'')"

text \<open>
  The shape \<open>YYYY-MM-DD\<close>: four digits, a hyphen, two digits, a hyphen, two digits.
\<close>

definition is_digit :: "char \<Rightarrow> bool" where
  "is_digit c = (c \<in> set ''0123456789'')"

definition is_yyyy_MM_dd :: "string \<Rightarrow> bool" where
  "is_yyyy_MM_dd s =
     (length s = 10 \<and> list_all is_digit (take 4 s) \<and> s ! 4 = CHR ''-'' \<and>
      list_all is_digit (take 2 (drop 5 s)) \<and> s ! 7 = CHR ''-'' \<and>
      list_all is_digit (drop 8 s))"

text \<open>A calendar day whose year has at most four digits.\<close>

definition valid_Date :: "Date \<Rightarrow> bool" where
  "valid_Date d =
     (year d \<le> 9999 \<and> 1 \<le> month d \<and> month d \<le> 12 \<and> 1 \<le> day d \<and> day d \<le> 31)"

text \<open>
  What the platform answers to the write of one submission, and when that write counts
  as failed: a failure mode of the request, or an envelope with \<open>success = false\<close>.
\<close>

definition save_outcome :: "Env \<Rightarrow> BookingFormData \<Rightarrow> SavedId fetch_outcome" where
  "save_outcome env d =
     fetchSave env BASE_URL
       (spread_options
          (Some (saveBooking_options (bookingData_of (generateId (random_digits env)) d))))"

definition write_fails :: "SavedId fetch_outcome \<Rightarrow> bool" where
  "write_fails outcome =
     (failure_mode outcome \<or>
      (case outcome of
         Rejected e \<Rightarrow> False
       | Response status js \<Rightarrow>
           (case js of Unparseable e \<Rightarrow> False | Parsed r \<Rightarrow> \<not> success r)))"

section \<open>Example data\<close>

text \<open>A backend that cannot be reached, and one that answers with a given envelope.\<close>

definition server_down :: "'a fetch" where
  "server_down url init = Rejected (Error ''Failed to fetch'')"

definition server_replies :: "'a ApiResponse \<Rightarrow> 'a fetch" where
  "server_replies r url init = Response 200 (Parsed r)"

definition example_day :: Date where
  "example_day = \<lparr>year = 2024, month = 3, day = 7\<rparr>"

definition example_expense :: ExpenseData where
  "example_expense =
     \<lparr>Items = ''Printing'', Details = ''Flyers'', Budget = ''1000'', Spent = ''200'',
      Incharge = ''Asha''\<rparr>"

definition example_donor :: DonorData where
  "example_donor =
     \<lparr>Donor_ID = ''D7'', Donor_Name = ''Ravi'', Address = ''Pune'', PAN_No = ''ABCDE1234F'',
      Mobile_No_dot = Some [], Mobile_No = Some ''98765''\<rparr>"

text \<open>The read of the options fails; the other reads succeed with data.\<close>

definition options_down_env :: Env where
  "options_down_env =
     \<lparr>fetchOptions = server_down,
      fetchExpenses =
        server_replies \<lparr>success = True, data = Some [example_expense], message = None\<rparr>,
      fetchDonors =
        server_replies \<lparr>success = True, data = Some [example_donor], message = None\<rparr>,
      fetchBookings = server_replies \<lparr>success = True, data = Some [], message = None\<rparr>,
      fetchSave = server_down,
      random_digits = [20, 3, 19, 9, 33, 2, 10, 11],
      today = example_day\<rparr>"

text \<open>
  Values of a form whose source department is \<open>Dasosmi\<close>, so that the category section
  is hidden, while the category chosen earlier is still held; and the data the schema
  yields for them.
\<close>

definition example_values :: FormValues where
  "example_values =
     \<lparr>v_date = Some example_day, v_fromDepartment = Some ''Dasosmi'',
      v_toDepartment = Some ''Main Account'', v_personalAccount = None,
      v_donorDetails = Some ''D7'', v_category = Some ''Stationery'', v_item = None,
      v_detail = None, v_particulars = Some ''Books'', v_amount = Finite 250\<rparr>"

definition example_data :: BookingFormData where
  "example_data =
     \<lparr>date = example_day, fromDepartment = ''Dasosmi'', toDepartment = ''Main Account'',
      personalAccount = None, donorDetails = Some ''D7'', category = Some ''Stationery'',
      item = None, detail = None, particulars = ''Books'', amount = Finite 250\<rparr>"

definition example_state :: State where
  "example_state = (initialState example_day)\<lparr>loading := False, form := example_values\<rparr>"

text \<open>The backend answers the write with \<open>success = false\<close>, or with success.\<close>

definition refusing_env :: Env where
  "refusing_env =
     \<lparr>fetchOptions = server_down, fetchExpenses = server_down, fetchDonors = server_down,
      fetchBookings = server_down,
      fetchSave =
        server_replies \<lparr>success = False, data = None, message = Some ''Sheet is locked''\<rparr>,
      random_digits = [20, 3, 19, 9, 33, 2, 10, 11],
      today = example_day\<rparr>"

definition accepting_env :: Env where
  "accepting_env =
     refusing_env\<lparr>fetchSave :=
       server_replies \<lparr>success = True, data = Some \<lparr>saved_id = ''k3j9x2ab''\<rparr>, message = None\<rparr>\<rparr>"

text \<open>Two option rows, and two catalog rows, that repeat a value.\<close>

definition repeated_options :: "OptionData list" where
  "repeated_options =
     [\<lparr>Type_Order_Donation = ''Expense'', Category = ''Stationery'',
       Department = ''Books Dasosmi'', From_Department = ''Books-Dasosmi'',
       To_Department = ''Vendor'', Personal_Account_Details = []\<rparr>,
      \<lparr>Type_Order_Donation = ''Expense'', Category = ''Stationery'',
       Department = ''Books Dasosmi'', From_Department = ''Dasosmi'',
       To_Department = ''Personal Account'', Personal_Account_Details = ''Cash''\<rparr>]"

definition repeated_expenses :: "ExpenseData list" where
  "repeated_expenses =
     [example_expense,
      \<lparr>Items = ''Printing'', Details = ''Flyers'', Budget = ''500'', Spent = ''0'',
       Incharge = ''Ravi''\<rparr>]"

section \<open>Shared facts\<close>

lemma makeRequest_eq:
  "makeRequest fetch url opts reqs =
     (Inr (case makeRequest_try (fetch url (spread_options opts)) of
             Inr res \<Rightarrow> res | Inl e \<Rightarrow> makeRequest_catch e),
      reqs @ [(url, spread_options opts)])"
  by (simp add: makeRequest_def Let_def split: sum.splits)

lemma new_Set_distinct_aux: "distinct acc \<Longrightarrow> distinct (foldl Set_add acc xs)"
  by (induction xs arbitrary: acc) (simp_all add: Set_add_def)

lemma getUniqueOptions_distinct: "distinct (getUniqueOptions field opts)"
  by (simp add: getUniqueOptions_def new_Set_def new_Set_distinct_aux)

lemma itemOptions_distinct: "distinct (itemOptions exps)"
  by (simp add: itemOptions_def new_Set_def new_Set_distinct_aux)

section \<open>Category options\<close>

text \<open>
  As a set, the categories offered are the non-empty categories of the rows of the books
  department with type \<open>Expense\<close>. (An older revision of the form reads the type from a
  column named \<open>Type\<close>; the row type of the gateway has \<open>Type (Order/Donation)\<close>,
  which is the one modelled.)
\<close>

lemma getFilteredCategories_set:
  "set (getFilteredCategories opts) =
     {c. c \<noteq> [] \<and> (\<exists>opt \<in> set opts. Category opt = c \<and> Department opt = ''Books Dasosmi'' \<and>
          Type_Order_Donation opt = ''Expense'')}"
  by (auto simp add: getFilteredCategories_def Boolean_def)

text \<open>
  Claim C1. The claim asks for the distinct categories. On two option rows of the books
  department with type \<open>Expense\<close> and the same category, the category field offers that
  category twice, whereas \<open>getUniqueOptions\<close> on the same rows yields it once.
\<close>

theorem categoryField_repeats:
  "categoryField (Some ''Books-Dasosmi'') repeated_options = Some [''Stationery'', ''Stationery''] \<and>
   \<not> distinct (getFilteredCategories repeated_options) \<and>
   getUniqueOptions Category repeated_options = [''Stationery'']"
  by (simp add: categoryField_def showCategory_def getFilteredCategories_def Boolean_def
      getUniqueOptions_def new_Set_def Set_add_def repeated_options_def)

section \<open>The serialized booking record\<close>

lemma digit_char_is_digit: "d < 10 \<Longrightarrow> is_digit (digit_char d)"
  unfolding is_digit_def digit_char_def by (rule nth_mem) simp

lemma show_nat_digits: "list_all is_digit (show_nat n)"
proof (induction n rule: show_nat.induct)
  case (1 n)
  show ?case
  proof (cases "n < 10")
    case True
    then show ?thesis by (simp add: show_nat.simps [of n] digit_char_is_digit)
  next
    case False
    with 1 show ?thesis by (simp add: show_nat.simps [of n] digit_char_is_digit)
  qed
qed

lemma length_show_nat_1: "n < 10 \<Longrightarrow> length (show_nat n) = 1"
  by (simp add: show_nat.simps [of n])

lemma length_show_nat_2: "n < 100 \<Longrightarrow> length (show_nat n) \<le> 2"
  by (cases "n < 10") (simp_all add: show_nat.simps [of n] length_show_nat_1)

lemma length_show_nat_3: "n < 1000 \<Longrightarrow> length (show_nat n) \<le> 3"
proof (cases "n < 10")
  case True
  then show ?thesis by (simp add: length_show_nat_1)
next
  case False
  assume "n < 1000"
  then have "n div 10 < 100" by simp
  from length_show_nat_2 [OF this] False show ?thesis
    by (simp add: show_nat.simps [of n])
qed

lemma length_show_nat_4: "n < 10000 \<Longrightarrow> length (show_nat n) \<le> 4"
proof (cases "n < 10")
  case True
  then show ?thesis by (simp add: length_show_nat_1)
next
  case False
  assume "n < 10000"
  then have "n div 10 < 1000" by simp
  from length_show_nat_3 [OF this] False show ?thesis
    by (simp add: show_nat.simps [of n])
qed

lemma zeros_digits: "list_all is_digit (replicate k (CHR ''0''))"
  by (induction k) (simp_all add: is_digit_def)

lemma addLeadingZeros_digits: "list_all is_digit (addLeadingZeros n w)"
  by (simp add: addLeadingZeros_def show_nat_digits zeros_digits)

lemma addLeadingZeros_length:
  "length (show_nat n) \<le> w \<Longrightarrow> length (addLeadingZeros n w) = w"
  by (simp add: addLeadingZeros_def)

lemma format_shape:
  assumes "valid_Date d"
  shows "is_yyyy_MM_dd (format_yyyy_MM_dd d)"
proof -
  from assms have y: "length (addLeadingZeros (year d) 4) = 4"
    by (intro addLeadingZeros_length length_show_nat_4) (simp add: valid_Date_def)
  from assms have m: "length (addLeadingZeros (month d) 2) = 2"
    by (intro addLeadingZeros_length length_show_nat_2) (simp add: valid_Date_def)
  from assms have dd: "length (addLeadingZeros (day d) 2) = 2"
    by (intro addLeadingZeros_length length_show_nat_2) (simp add: valid_Date_def)
  show ?thesis
    unfolding is_yyyy_MM_dd_def format_yyyy_MM_dd_def
    using y m dd
    by (simp add: addLeadingZeros_digits nth_append)
qed

lemma or_str_empty: "or_str a [] = (case a of None \<Rightarrow> [] | Some s \<Rightarrow> s)"
  by (simp add: or_str_def split: option.splits)

lemma onSubmit_requests:
  "\<exists>rest. requests (onSubmit env d st) =
     requests st @
       (BASE_URL, spread_options (Some (saveBooking_options
          (bookingData_of (generateId (random_digits env)) d)))) # rest"
  by (simp add: onSubmit_def onSubmit_try_def saveBooking_def getBookings_def makeRequest_eq
      Let_def toast_def split: option.splits)

text \<open>
  Claim C2, as amended. The body of the write always has the key \<open>action\<close> and the eleven
  keys of the record, in this order; the date is the one of the form written as
  \<open>yyyy-MM-dd\<close> (ten characters of the shape \<open>YYYY-MM-DD\<close> for a year of at most four
  digits); and each of the five optional fields is the string the form holds for it,
  or the empty string when the form holds none, whatever sections are visible. This is
  the body of the request that \<open>onSubmit\<close> issues.
\<close>

theorem booking_record_keys:
  "map fst (saveBooking_body (bookingData_of i d)) =
     [''action'', ''id'', ''date'', ''fromDepartment'', ''toDepartment'', ''personalAccount'',
      ''donorDetails'', ''category'', ''item'', ''detail'', ''particulars'', ''amount''] \<and>
   map_of (saveBooking_body (bookingData_of i d)) ''date'' =
     Some (JString (format_yyyy_MM_dd (date d))) \<and>
   (valid_Date (date d) \<longrightarrow> is_yyyy_MM_dd (format_yyyy_MM_dd (date d))) \<and>
   map_of (saveBooking_body (bookingData_of i d)) ''personalAccount'' =
     Some (JString (case personalAccount d of None \<Rightarrow> [] | Some s \<Rightarrow> s)) \<and>
   map_of (saveBooking_body (bookingData_of i d)) ''donorDetails'' =
     Some (JString (case donorDetails d of None \<Rightarrow> [] | Some s \<Rightarrow> s)) \<and>
   map_of (saveBooking_body (bookingData_of i d)) ''category'' =
     Some (JString (case category d of None \<Rightarrow> [] | Some s \<Rightarrow> s)) \<and>
   map_of (saveBooking_body (bookingData_of i d)) ''item'' =
     Some (JString (case item d of None \<Rightarrow> [] | Some s \<Rightarrow> s)) \<and>
   map_of (saveBooking_body (bookingData_of i d)) ''detail'' =
     Some (JString (case detail d of None \<Rightarrow> [] | Some s \<Rightarrow> s)) \<and>
   (\<exists>rest. requests (onSubmit env d st) =
      requests st @
        (BASE_URL,
         \<lparr>http_method = Some ''POST'',
          headers = Some [(''Content-Type'', ''text/plain;charset=utf-8'')],
          body = Some (saveBooking_body (bookingData_of (generateId (random_digits env)) d))\<rparr>)
        # rest)"
proof -
  have "\<exists>rest. requests (onSubmit env d st) =
      requests st @
        (BASE_URL,
         \<lparr>http_method = Some ''POST'',
          headers = Some [(''Content-Type'', ''text/plain;charset=utf-8'')],
          body = Some (saveBooking_body (bookingData_of (generateId (random_digits env)) d))\<rparr>)
        # rest"
    using onSubmit_requests [of env d st]
    by (simp add: spread_options_def saveBooking_options_def)
  then show ?thesis
    by (simp add: saveBooking_body_def bookingData_of_def or_str_empty format_shape)
qed

theorem booking_record_keys_witness:
  "is_yyyy_MM_dd (format_yyyy_MM_dd example_day) \<and>
   map_of (saveBooking_body (bookingData_of ''k3j9x2ab'' example_data)) ''item'' =
     Some (JString [])"
  using booking_record_keys [where d = example_data and i = "''k3j9x2ab''"]
  by (simp add: example_data_def example_day_def valid_Date_def)

text \<open>
  The claim as stated fails: the example values pass the schema, their source department
  hides the category section, and the record still carries the category.
\<close>

theorem hidden_category_is_sent:
  "bookingSchema example_values = Inr example_data \<and>
   \<not> showCategory (v_fromDepartment example_values) \<and>
   map_of (saveBooking_body (bookingData_of ''k3j9x2ab'' example_data)) ''category'' =
     Some (JString ''Stationery'')"
  by (simp add: example_values_def example_data_def bookingSchema_def bookingSchema_issues_def
      string_min_def showCategory_def saveBooking_body_def bookingData_of_def or_str_def)

section \<open>Failures of the gateway\<close>

lemma makeRequest_returns:
  "\<exists>res. fst (makeRequest fetch url opts reqs) = Inr res"
  by (simp add: makeRequest_eq)

lemma makeRequest_failure:
  assumes "failure_mode (fetch url (spread_options opts))"
  shows "fst (makeRequest fetch url opts reqs) = failure_reply (fetch url (spread_options opts))"
  using assms
  by (auto simp add: makeRequest_eq failure_mode_def failure_reply_def failure_text_def
      thrown_text_def makeRequest_try_def makeRequest_catch_def
      split: fetch_outcome.splits json_result.splits thrown.splits if_splits)

lemma failure_text_empty:
  assumes "failure_mode outcome"
  shows "(failure_text outcome = []) = empty_error outcome"
  using assms
  by (auto simp add: failure_mode_def failure_text_def thrown_text_def empty_error_def
      split: fetch_outcome.splits json_result.splits thrown.splits if_splits)

text \<open>
  Claim C3, as amended. Every request of the gateway returns an envelope and never
  raises to its caller. When the request runs into a failure mode (the connection fails,
  the status is not 2xx, the body is not parseable), the envelope has \<open>success = false\<close>,
  no data, and as its message the text of the failure: \<open>HTTP error! status: n\<close>, the
  message of the error that the platform raised, or \<open>Unknown error occurred\<close>. That text
  is empty exactly when the platform raised an \<open>Error\<close> with an empty message. This holds
  for \<open>makeRequest\<close> and so for the three reads, for \<open>getBookings\<close> and for the write.
\<close>

theorem gateway_failure_reply:
  fixes fetch :: "'a fetch" and outcome :: "'b fetch_outcome"
    and fo :: "OptionData list fetch" and fe :: "ExpenseData list fetch"
    and fd :: "DonorData list fetch" and fb :: "BookingData list fetch"
    and fs :: "SavedId fetch"
  shows "(\<exists>res. fst (makeRequest fetch url opts reqs) = Inr res) \<and>
    (failure_mode (fetch url (spread_options opts)) \<longrightarrow>
       fst (makeRequest fetch url opts reqs) = failure_reply (fetch url (spread_options opts))) \<and>
    (failure_mode outcome \<longrightarrow> (failure_text outcome = []) = empty_error outcome) \<and>
    (failure_mode (fo (BASE_URL @ ''?action=getOptions'') (spread_options None)) \<longrightarrow>
       fst (getOptions fo reqs) =
         failure_reply (fo (BASE_URL @ ''?action=getOptions'') (spread_options None))) \<and>
    (failure_mode (fe (BASE_URL @ ''?action=getExpenses'') (spread_options None)) \<longrightarrow>
       fst (getExpenses fe reqs) =
         failure_reply (fe (BASE_URL @ ''?action=getExpenses'') (spread_options None))) \<and>
    (failure_mode (fd (BASE_URL @ ''?action=getDonors'') (spread_options None)) \<longrightarrow>
       fst (getDonors fd reqs) =
         failure_reply (fd (BASE_URL @ ''?action=getDonors'') (spread_options None))) \<and>
    (failure_mode (fb (BASE_URL @ ''?action=getBookings'') (spread_options None)) \<longrightarrow>
       fst (getBookings fb reqs) =
         failure_reply (fb (BASE_URL @ ''?action=getBookings'') (spread_options None))) \<and>
    (failure_mode (fs BASE_URL (spread_options (Some (saveBooking_options bookingData)))) \<longrightarrow>
       fst (saveBooking fs bookingData reqs) =
         failure_reply (fs BASE_URL (spread_options (Some (saveBooking_options bookingData)))))"
  by (simp add: makeRequest_returns makeRequest_failure failure_text_empty getOptions_def
      getExpenses_def getDonors_def getBookings_def saveBooking_def)

theorem gateway_failure_reply_witness:
  "fst (makeRequest (\<lambda>url init. Response 200 (Unparseable NotAnError) :: unit fetch_outcome)
       ''x'' None []) =
     Inr \<lparr>success = False, data = None, message = Some ''Unknown error occurred''\<rparr> \<and>
   failure_text (Response 404 (Unparseable (Error [])) :: unit fetch_outcome) \<noteq> [] \<and>
   fst (getOptions (\<lambda>url init. Rejected (Error ''Failed to fetch'')) []) =
     Inr \<lparr>success = False, data = None, message = Some ''Failed to fetch''\<rparr> \<and>
   fst (getExpenses (\<lambda>url init. Response 500 (Parsed
       \<lparr>success = True, data = Some [], message = None\<rparr>)) []) =
     Inr \<lparr>success = False, data = None, message = Some ''HTTP error! status: 500''\<rparr> \<and>
   fst (getDonors (\<lambda>url init. Response 200 (Unparseable
       (Error ''Unexpected token < in JSON at position 0''))) []) =
     Inr \<lparr>success = False, data = None,
          message = Some ''Unexpected token < in JSON at position 0''\<rparr> \<and>
   fst (getBookings (\<lambda>url init. Response 404 (Unparseable
       (Error ''Unexpected end of JSON input''))) []) =
     Inr \<lparr>success = False, data = None, message = Some ''HTTP error! status: 404''\<rparr> \<and>
   fst (saveBooking (\<lambda>url init. Rejected NotAnError)
       \<lparr>bk_id = ''k3j9x2ab'', bk_date = ''2024-03-07'', bk_fromDepartment = ''Dasosmi'',
        bk_toDepartment = ''Personal Account'', bk_personalAccount = [], bk_donorDetails = [],
        bk_category = [], bk_item = [], bk_detail = [], bk_particulars = ''Books'',
        bk_amount = Finite 10\<rparr> []) =
     Inr \<lparr>success = False, data = None, message = Some ''Unknown error occurred''\<rparr>"
  using gateway_failure_reply
    [where fetch = "\<lambda>url init. Response 200 (Unparseable NotAnError) :: unit fetch_outcome"
       and url = "''x''" and opts = None and reqs = "[]"
       and outcome = "Response 404 (Unparseable (Error [])) :: unit fetch_outcome"
       and fo = "\<lambda>url init. Rejected (Error ''Failed to fetch'')"
       and fe = "\<lambda>url init. Response 500 (Parsed \<lparr>success = True, data = Some [], message = None\<rparr>)"
       and fd = "\<lambda>url init. Response 200 (Unparseable (Error ''Unexpected token < in JSON at position 0''))"
       and fb = "\<lambda>url init. Response 404 (Unparseable (Error ''Unexpected end of JSON input''))"
       and fs = "\<lambda>url init. Rejected NotAnError"
       and bookingData = "\<lparr>bk_id = ''k3j9x2ab'', bk_date = ''2024-03-07'',
         bk_fromDepartment = ''Dasosmi'', bk_toDepartment = ''Personal Account'',
         bk_personalAccount = [], bk_donorDetails = [], bk_category = [], bk_item = [],
         bk_detail = [], bk_particulars = ''Books'', bk_amount = Finite 10\<rparr>"]
  by (simp add: failure_mode_def failure_reply_def failure_text_def thrown_text_def
      empty_error_def ok_def show_nat.simps digit_char_def)

text \<open>
  The claim as first stated fails: when the connection fails with an \<open>Error\<close> whose
  message is empty, the read returns an envelope whose message is empty.
\<close>

theorem empty_error_message_is_forwarded:
  "failure_mode (Rejected (Error []) :: OptionData list fetch_outcome) \<and>
   fst (getOptions (\<lambda>url init. Rejected (Error [])) []) =
     Inr \<lparr>success = False, data = None, message = Some []\<rparr> \<and>
   \<not> failure_envelope (fst (getOptions (\<lambda>url init. Rejected (Error [])) []))"
  by (simp add: failure_mode_def failure_envelope_def getOptions_def makeRequest_eq
      makeRequest_try_def makeRequest_catch_def)

section \<open>Validation\<close>

lemma bookingSchema_accepts:
  "(\<not> isl (bookingSchema v)) =
     (v_date v \<noteq> None \<and> truthy (v_fromDepartment v) \<and> truthy (v_toDepartment v) \<and>
      truthy (v_particulars v) \<and> number_ge (v_amount v) 0.01)"
  by (cases "v_date v"; cases "v_fromDepartment v"; cases "v_toDepartment v";
      cases "v_particulars v")
     (auto simp add: bookingSchema_def bookingSchema_issues_def string_min_def Suc_le_eq)

lemma bookingSchema_issues_Inl:
  "isl (bookingSchema v) \<Longrightarrow> bookingSchema v = Inl (bookingSchema_issues v)"
  by (auto simp add: bookingSchema_def split: option.splits if_splits)

lemma number_ge_gt: "number_ge x 0.01 \<Longrightarrow> number_gt x 0"
  by (cases x) simp_all

lemma handleSubmit_rejected:
  "isl (bookingSchema (form st)) \<Longrightarrow>
     handleSubmit env st = st\<lparr>errors := bookingSchema_issues (form st)\<rparr>"
  by (simp add: handleSubmit_def bookingSchema_issues_Inl)

lemma handleSubmit_accepted:
  assumes "\<not> isl (bookingSchema (form st))"
  shows "length (requests st) < length (requests (handleSubmit env st))"
proof -
  from assms obtain d where d: "bookingSchema (form st) = Inr d"
    by (cases "bookingSchema (form st)") simp_all
  obtain rest where "requests (onSubmit env d (st\<lparr>errors := []\<rparr>)) =
      requests (st\<lparr>errors := []\<rparr>) @
       (BASE_URL, spread_options (Some (saveBooking_options
          (bookingData_of (generateId (random_digits env)) d)))) # rest"
    using onSubmit_requests by blast
  with d show ?thesis
    by (simp add: handleSubmit_def)
qed

text \<open>
  Claim C4. The schema accepts the values of the form exactly when the date is present,
  the two departments and the particulars are non-empty, and the amount is a number of
  at least 0.01; so an accepted amount is greater than 0. When the schema rejects,
  submission only records the issues: no request is issued and nothing else changes.
  When it accepts, a request is issued. The amount 0 and every amount below 0.01 (so
  every negative one) are rejected, and 0.01 is accepted wherever any amount is.
\<close>

theorem validation_before_request:
  "(\<not> isl (bookingSchema v)) =
     (v_date v \<noteq> None \<and> truthy (v_fromDepartment v) \<and> truthy (v_toDepartment v) \<and>
      truthy (v_particulars v) \<and> number_ge (v_amount v) 0.01) \<and>
   (\<not> isl (bookingSchema v) \<longrightarrow> number_gt (v_amount v) 0) \<and>
   (isl (bookingSchema (form st)) \<longrightarrow>
      requests (handleSubmit env st) = requests st \<and>
      handleSubmit env st = st\<lparr>errors := bookingSchema_issues (form st)\<rparr> \<and>
      bookingSchema_issues (form st) \<noteq> []) \<and>
   (\<not> isl (bookingSchema (form st)) \<longrightarrow>
      length (requests st) < length (requests (handleSubmit env st))) \<and>
   isl (bookingSchema (v\<lparr>v_amount := Finite 0\<rparr>)) \<and>
   (r < 0.01 \<longrightarrow> isl (bookingSchema (v\<lparr>v_amount := Finite r\<rparr>))) \<and>
   (\<not> isl (bookingSchema v) \<longrightarrow> \<not> isl (bookingSchema (v\<lparr>v_amount := Finite 0.01\<rparr>)))"
proof -
  have issues: "bookingSchema_issues (form st) \<noteq> []" if "isl (bookingSchema (form st))"
    using that bookingSchema_accepts [of "form st"]
    by (auto simp add: bookingSchema_issues_def string_min_def Suc_le_eq split: option.splits)
  have zero: "isl (bookingSchema (v\<lparr>v_amount := Finite 0\<rparr>))"
    using bookingSchema_accepts [of "v\<lparr>v_amount := Finite 0\<rparr>"] by simp
  have small: "isl (bookingSchema (v\<lparr>v_amount := Finite r\<rparr>))" if "r < 0.01"
    using that bookingSchema_accepts [of "v\<lparr>v_amount := Finite r\<rparr>"] by simp
  have least: "\<not> isl (bookingSchema (v\<lparr>v_amount := Finite 0.01\<rparr>))" if "\<not> isl (bookingSchema v)"
    using that bookingSchema_accepts [of v]
      bookingSchema_accepts [of "v\<lparr>v_amount := Finite 0.01\<rparr>"] by simp
  show ?thesis
    using issues zero small least
    by (simp add: bookingSchema_accepts number_ge_gt handleSubmit_rejected
        handleSubmit_accepted)
qed

theorem validation_before_request_witness:
  "\<not> isl (bookingSchema example_values) \<and>
   number_gt (v_amount example_values) 0 \<and>
   length (requests example_state) < length (requests (handleSubmit refusing_env example_state)) \<and>
   requests (handleSubmit refusing_env
      (example_state\<lparr>form := example_values\<lparr>v_amount := Finite 0\<rparr>\<rparr>)) = [] \<and>
   isl (bookingSchema (example_values\<lparr>v_amount := Finite (- 5)\<rparr>)) \<and>
   \<not> isl (bookingSchema (example_values\<lparr>v_amount := Finite 0.01\<rparr>))"
  using validation_before_request
    [where v = example_values and st = example_state and env = refusing_env and r = "- 5"]
    validation_before_request
    [where v = example_values and env = refusing_env
       and st = "example_state\<lparr>form := example_values\<lparr>v_amount := Finite 0\<rparr>\<rparr>"]
  by (simp add: example_values_def example_state_def example_day_def initialState_def)

section \<open>Loading the reference data\<close>

lemma loadData_try_eq:
  "loadData_try env st =
     (let optionsRes = (case makeRequest_try (fetchOptions env (BASE_URL @ ''?action=getOptions'')
                              (spread_options None)) of
                          Inr res \<Rightarrow> res | Inl e \<Rightarrow> makeRequest_catch e);
          expensesRes = (case makeRequest_try (fetchExpenses env (BASE_URL @ ''?action=getExpenses'')
                              (spread_options None)) of
                          Inr res \<Rightarrow> res | Inl e \<Rightarrow> makeRequest_catch e);
          donorsRes = (case makeRequest_try (fetchDonors env (BASE_URL @ ''?action=getDonors'')
                              (spread_options None)) of
                          Inr res \<Rightarrow> res | Inl e \<Rightarrow> makeRequest_catch e);
          bookingsRes = (case makeRequest_try (fetchBookings env (BASE_URL @ ''?action=getBookings'')
                              (spread_options None)) of
                          Inr res \<Rightarrow> res | Inl e \<Rightarrow> makeRequest_catch e);
          st0 = st\<lparr>requests := requests st @
                   [(BASE_URL @ ''?action=getOptions'', spread_options None),
                    (BASE_URL @ ''?action=getExpenses'', spread_options None),
                    (BASE_URL @ ''?action=getDonors'', spread_options None),
                    (BASE_URL @ ''?action=getBookings'', spread_options None)]\<rparr>;
          st1 = (case data optionsRes of
                   Some rows \<Rightarrow> if success optionsRes then st0\<lparr>options := rows\<rparr> else st0
                 | None \<Rightarrow> st0);
          st2 = (case data expensesRes of
                   Some rows \<Rightarrow> if success expensesRes then st1\<lparr>expenses := rows\<rparr> else st1
                 | None \<Rightarrow> st1);
          st3 = (case data donorsRes of
                   Some rows \<Rightarrow> if success donorsRes then st2\<lparr>donors := rows\<rparr> else st2
                 | None \<Rightarrow> st2);
          st4 = (case data bookingsRes of
                   Some rows \<Rightarrow> if success bookingsRes then st3\<lparr>bookings := rows\<rparr> else st3
                 | None \<Rightarrow> st3)
      in (None, st4))"
  by (simp add: loadData_try_def getOptions_def getExpenses_def getDonors_def getBookings_def
      makeRequest_eq Promise_all4_def Let_def cong: option.case_cong if_cong)

text \<open>
  No exception leaves the \<open>try\<close> block of \<open>loadData\<close>, since no read raises; so its
  \<open>catch\<close> clause, the only place that notifies, never runs.
\<close>

lemma loadData_never_raises: "fst (loadData_try env st) = None"
  by (simp add: loadData_try_eq Let_def)

lemma loadData_toasts: "toasts (loadData env st) = toasts st"
  by (simp add: loadData_def loadData_try_eq Let_def split: option.splits)

text \<open>A slot is set exactly when its read returns success with data (here: the options).\<close>

lemma loadData_options:
  "options (loadData env st) =
     (case fst (getOptions (fetchOptions env) reqs) of
        Inl e \<Rightarrow> options st
      | Inr res \<Rightarrow> (case data res of
                     Some rows \<Rightarrow> if success res then rows else options st
                   | None \<Rightarrow> options st))"
  by (simp add: loadData_def loadData_try_eq getOptions_def makeRequest_eq Let_def
      split: option.splits)

text \<open>
  Claim C5. The claim asks that a failed read leave its slot empty, that the other slots
  still be populated, and that an error notification fire. When the read of the options
  fails and the other reads succeed, \<open>loadData\<close> leaves the options empty and sets the
  expenses and the donors, but it shows no notification.
\<close>

theorem loadData_failed_read_is_silent:
  "options (loadData options_down_env (initialState example_day)) = [] \<and>
   expenses (loadData options_down_env (initialState example_day)) = [example_expense] \<and>
   donors (loadData options_down_env (initialState example_day)) = [example_donor] \<and>
   toasts (loadData options_down_env (initialState example_day)) = [] \<and>
   \<not> loading (loadData options_down_env (initialState example_day))"
  by (simp add: loadData_def loadData_try_eq Let_def options_down_env_def server_down_def
      server_replies_def makeRequest_try_def makeRequest_catch_def ok_def initialState_def)

section \<open>Detail options\<close>

lemma getDetailsForItem_set:
  "set (getDetailsForItem exps i) =
     {x. x \<noteq> [] \<and> (\<exists>exp \<in> set exps. Details exp = x \<and> Items exp = i)}"
  by (auto simp add: getDetailsForItem_def Boolean_def)

lemma getDetailsForItem_no_rows:
  "i \<notin> Items ` set exps \<Longrightarrow> getDetailsForItem exps i = []"
  by (auto simp add: getDetailsForItem_def filter_empty_conv)

lemma getDetailsForItem_example:
  "getDetailsForItem
     [\<lparr>Items = ''A'', Details = ''x'', Budget = [], Spent = [], Incharge = []\<rparr>,
      \<lparr>Items = ''A'', Details = ''y'', Budget = [], Spent = [], Incharge = []\<rparr>,
      \<lparr>Items = ''B'', Details = ''z'', Budget = [], Spent = [], Incharge = []\<rparr>] ''A'' = [''x'', ''y''] \<and>
   getDetailsForItem
     [\<lparr>Items = ''A'', Details = ''x'', Budget = [], Spent = [], Incharge = []\<rparr>,
      \<lparr>Items = ''A'', Details = ''y'', Budget = [], Spent = [], Incharge = []\<rparr>,
      \<lparr>Items = ''B'', Details = ''z'', Budget = [], Spent = [], Incharge = []\<rparr>] ''B'' = [''z'']"
  by (simp add: getDetailsForItem_def Boolean_def)

text \<open>
  Claim C6. The claim asks for the distinct details of the rows of the chosen item. On
  two catalog rows with the same item and the same detail, the details field offers that
  detail twice, whereas the item options, built with a Set from the same rows, hold the
  item once.
\<close>

theorem detailField_repeats:
  "detailField (Some ''Expenses-Dasosmi'') (Some ''Printing'') repeated_expenses =
     Some [''Flyers'', ''Flyers''] \<and>
   \<not> distinct (getDetailsForItem repeated_expenses ''Printing'') \<and>
   itemOptions repeated_expenses = [''Printing'']"
  by (simp add: detailField_def showItemsDetails_def getDetailsForItem_def Boolean_def
      itemOptions_def new_Set_def Set_add_def repeated_expenses_def example_expense_def)

section \<open>Visibility of the conditional sections\<close>

text \<open>
  The three sections that depend on the source department exclude one another, since one
  value cannot equal two different names.
\<close>

lemma from_sections_exclusive:
  "\<not> (showCategory f \<and> showItemsDetails f) \<and> \<not> (showCategory f \<and> showDonorDetails f) \<and>
   \<not> (showItemsDetails f \<and> showDonorDetails f)"
  by (auto simp add: showCategory_def showItemsDetails_def showDonorDetails_def)

text \<open>
  Every combination of the four values with at most one of the first three is shown by
  some pair of departments.
\<close>

lemma sections_attained:
  assumes "\<not> (c \<and> i)" and "\<not> (c \<and> d)" and "\<not> (i \<and> d)"
  shows "\<exists>f t. (showCategory f, showItemsDetails f, showDonorDetails f, showPersonalAccount t) =
           (c, i, d, p)"
proof -
  have t: "\<exists>t. showPersonalAccount t = p"
    by (cases p) (auto simp add: showPersonalAccount_def)
  have f: "\<exists>f. showCategory f = c \<and> showItemsDetails f = i \<and> showDonorDetails f = d"
  proof -
    consider "c" "\<not> i" "\<not> d" | "\<not> c" "i" "\<not> d" | "\<not> c" "\<not> i" "d" | "\<not> c" "\<not> i" "\<not> d"
      using assms by blast
    then show ?thesis
    proof cases
      case 1
      then show ?thesis
        by (intro exI [of _ "Some ''Books-Dasosmi''"])
          (simp add: showCategory_def showItemsDetails_def showDonorDetails_def)
    next
      case 2
      then show ?thesis
        by (intro exI [of _ "Some ''Expenses-Dasosmi''"])
          (simp add: showCategory_def showItemsDetails_def showDonorDetails_def)
    next
      case 3
      then show ?thesis
        by (intro exI [of _ "Some ''Dasosmi''"])
          (simp add: showCategory_def showItemsDetails_def showDonorDetails_def)
    next
      case 4
      then show ?thesis
        by (intro exI [of _ None])
          (simp add: showCategory_def showItemsDetails_def showDonorDetails_def)
    qed
  qed
  from f t show ?thesis by auto
qed

text \<open>
  Claim C7, as amended. Each of the four visibility values is decided by one exact
  comparison of strings: the category section by the source department being
  \<open>Books-Dasosmi\<close>, the item and detail section by its being \<open>Expenses-Dasosmi\<close>, the
  donor section by its being \<open>Dasosmi\<close> or \<open>Corporate Dasosmi\<close>, and the personal-account
  section by the destination being \<open>Personal Account\<close>; an undefined or empty department
  shows none. The four values are not independent of one another: the combinations that
  some pair of departments shows are exactly those with at most one of the category, item
  and detail, and donor sections, each with or without the personal-account section.
\<close>

theorem visibility_exact_match:
  "showCategory f = (f = Some ''Books-Dasosmi'') \<and>
   showItemsDetails f = (f = Some ''Expenses-Dasosmi'') \<and>
   showDonorDetails f = (f = Some ''Dasosmi'' \<or> f = Some ''Corporate Dasosmi'') \<and>
   showPersonalAccount t = (t = Some ''Personal Account'') \<and>
   (showCategory None, showItemsDetails None, showDonorDetails None, showPersonalAccount None) =
     (False, False, False, False) \<and>
   (showCategory (Some []), showItemsDetails (Some []), showDonorDetails (Some []),
    showPersonalAccount (Some [])) = (False, False, False, False) \<and>
   (\<exists>f' t'. (showCategory f', showItemsDetails f', showDonorDetails f', showPersonalAccount t') =
        (c, i, d, p)) =
     (\<not> (c \<and> i) \<and> \<not> (c \<and> d) \<and> \<not> (i \<and> d))"
proof -
  have combos: "(\<exists>f' t'. (showCategory f', showItemsDetails f', showDonorDetails f',
        showPersonalAccount t') = (c, i, d, p)) =
     (\<not> (c \<and> i) \<and> \<not> (c \<and> d) \<and> \<not> (i \<and> d))"
  proof
    assume "\<exists>f' t'. (showCategory f', showItemsDetails f', showDonorDetails f',
        showPersonalAccount t') = (c, i, d, p)"
    then obtain f' where "showCategory f' = c" "showItemsDetails f' = i" "showDonorDetails f' = d"
      by auto
    with from_sections_exclusive [of f'] show "\<not> (c \<and> i) \<and> \<not> (c \<and> d) \<and> \<not> (i \<and> d)"
      by simp
  next
    assume "\<not> (c \<and> i) \<and> \<not> (c \<and> d) \<and> \<not> (i \<and> d)"
    then show "\<exists>f' t'. (showCategory f', showItemsDetails f', showDonorDetails f',
        showPersonalAccount t') = (c, i, d, p)"
      using sections_attained [of c i d p] by blast
  qed
  then show ?thesis
    by (intro conjI)
      (simp_all add: showCategory_def showItemsDetails_def showDonorDetails_def
        showPersonalAccount_def)
qed

text \<open>
  The claim as first stated fails: no source department shows the category section and
  the item and detail section together, while the category section and the
  personal-account section do show together.
\<close>

theorem category_and_items_never_together:
  "\<not> (\<exists>f t. (showCategory f, showItemsDetails f, showDonorDetails f, showPersonalAccount t) =
          (True, True, False, False)) \<and>
   (showCategory (Some ''Books-Dasosmi''), showItemsDetails (Some ''Books-Dasosmi''),
    showDonorDetails (Some ''Books-Dasosmi''), showPersonalAccount (Some ''Personal Account'')) =
     (True, False, False, True)"
  by (auto simp add: showCategory_def showItemsDetails_def showDonorDetails_def
      showPersonalAccount_def)

section \<open>The mobile number of a donor\<close>

lemma or_first_non_empty:
  "or_str (or_opt a b) dflt = (case first_non_empty [a, b] of Some m \<Rightarrow> m | None \<Rightarrow> dflt)"
  by (cases a; cases b) (auto simp add: or_str_def or_opt_def)

text \<open>
  Claim C8. In the label of a donor, in the text that the search matches against, and in
  the label of the button for the selected donor, the mobile number is the first
  non-empty one of \<open>Mobile No.\<close> and \<open>Mobile No\<close> (in this order), with \<open>No Mobile\<close>
  in the labels and nothing in the search text when both are empty or missing.
\<close>

theorem donor_mobile_first_non_empty:
  "donorItemLabel d =
     Donor_Name d @ '' - '' @
     (case first_non_empty [Mobile_No_dot d, Mobile_No d] of Some m \<Rightarrow> m | None \<Rightarrow> ''No Mobile'') @
     '' - '' @ Address d \<and>
   donorItemValue d =
     Donor_Name d @ '' '' @
     (case first_non_empty [Mobile_No_dot d, Mobile_No d] of Some m \<Rightarrow> m | None \<Rightarrow> []) @
     '' '' @ Address d \<and>
   (find (\<lambda>x. Donor_ID x = i) ds = Some d \<and> i \<noteq> [] \<longrightarrow>
      donorButtonLabel ds (Some i) =
        Donor_Name d @ '' - '' @
        (case first_non_empty [Mobile_No_dot d, Mobile_No d] of
           Some m \<Rightarrow> m | None \<Rightarrow> ''No Mobile''))"
  by (simp add: donorItemLabel_def donorItemValue_def donorButtonLabel_def or_first_non_empty
      del: first_non_empty.simps)

theorem donor_mobile_first_non_empty_witness:
  "donorButtonLabel [example_donor] (Some ''D7'') = ''Ravi - 98765'' \<and>
   donorItemLabel example_donor = ''Ravi - 98765 - Pune'' \<and>
   donorItemValue example_donor = ''Ravi 98765 Pune''"
  using donor_mobile_first_non_empty
    [where d = example_donor and i = "''D7''" and ds = "[example_donor]"]
  by (simp add: example_donor_def)

section \<open>A failed write\<close>

lemma write_fails_try:
  "write_fails outcome \<Longrightarrow>
     \<not> success (case makeRequest_try outcome of Inr res \<Rightarrow> res | Inl e \<Rightarrow> makeRequest_catch e)"
  by (auto simp add: write_fails_def failure_mode_def makeRequest_try_def makeRequest_catch_def
      split: fetch_outcome.splits json_result.splits if_splits)

lemma write_succeeds_try:
  "\<not> write_fails outcome \<Longrightarrow>
     success (case makeRequest_try outcome of Inr res \<Rightarrow> res | Inl e \<Rightarrow> makeRequest_catch e)"
  by (auto simp add: write_fails_def failure_mode_def makeRequest_try_def makeRequest_catch_def
      split: fetch_outcome.splits json_result.splits if_splits)

text \<open>
  After a failed write the state is the one before, with the request recorded and one
  error notification added, whose text is the returned message or the fallback.
\<close>

lemma onSubmit_failed:
  assumes "write_fails (save_outcome env d)"
  shows "onSubmit env d st =
     st\<lparr>submitting := False,
        requests := requests st @
          [(BASE_URL, spread_options (Some (saveBooking_options
              (bookingData_of (generateId (random_digits env)) d))))],
        toasts := toasts st @
          [\<lparr>title = ''Error'',
            description = or_str (message (case makeRequest_try (save_outcome env d) of
                Inr res \<Rightarrow> res | Inl e \<Rightarrow> makeRequest_catch e)) ''Failed to save booking'',
            variant = Some ''destructive''\<rparr>]\<rparr>"
  using write_fails_try [OF assms]
  by (simp add: onSubmit_def onSubmit_try_def saveBooking_def makeRequest_eq Let_def toast_def
      save_outcome_def)

lemma onSubmit_succeeded_form:
  assumes "\<not> write_fails (save_outcome env d)"
  shows "form (onSubmit env d st) = defaultValues (today env) \<and> \<not> submitting (onSubmit env d st)"
  using write_succeeds_try [OF assms]
  by (simp add: onSubmit_def onSubmit_try_def saveBooking_def getBookings_def makeRequest_eq
      Let_def toast_def save_outcome_def split: option.splits)

text \<open>
  Claim C9. When the write of a submission fails (a failure mode of the request, or an
  envelope with \<open>success = false\<close>), the values of the form, its errors and the loaded
  data are unchanged, the submitting flag is cleared, and one error notification is
  added. When the write succeeds, the values of the form are the defaults and the flag
  is cleared; so the form is reset only by a successful write.
\<close>

theorem failed_write_keeps_form:
  "(write_fails (save_outcome env d) \<longrightarrow>
      form (onSubmit env d st) = form st \<and> \<not> submitting (onSubmit env d st) \<and>
      errors (onSubmit env d st) = errors st \<and> options (onSubmit env d st) = options st \<and>
      expenses (onSubmit env d st) = expenses st \<and> donors (onSubmit env d st) = donors st \<and>
      bookings (onSubmit env d st) = bookings st \<and>
      (\<exists>text. toasts (onSubmit env d st) =
         toasts st @ [\<lparr>title = ''Error'', description = text, variant = Some ''destructive''\<rparr>])) \<and>
   (\<not> write_fails (save_outcome env d) \<longrightarrow>
      form (onSubmit env d st) = defaultValues (today env) \<and> \<not> submitting (onSubmit env d st)) \<and>
   (bookingSchema (form st) = Inr d \<and> write_fails (save_outcome env d) \<longrightarrow>
      form (handleSubmit env st) = form st \<and> \<not> submitting (handleSubmit env st))"
proof -
  have "form (handleSubmit env st) = form st \<and> \<not> submitting (handleSubmit env st)"
    if "bookingSchema (form st) = Inr d" and "write_fails (save_outcome env d)"
    using that by (simp add: handleSubmit_def onSubmit_failed)
  then show ?thesis
    by (simp add: onSubmit_failed onSubmit_succeeded_form)
qed

theorem failed_write_keeps_form_witness:
  "form (onSubmit refusing_env example_data example_state) = example_values \<and>
   \<not> submitting (onSubmit refusing_env example_data example_state) \<and>
   form (handleSubmit (refusing_env\<lparr>fetchSave := server_down\<rparr>) example_state) = example_values \<and>
   form (onSubmit accepting_env example_data example_state) = defaultValues example_day"
  using failed_write_keeps_form
    [where env = refusing_env and d = example_data and st = example_state]
    failed_write_keeps_form
    [where env = "refusing_env\<lparr>fetchSave := server_down\<rparr>" and d = example_data
       and st = example_state]
    failed_write_keeps_form
    [where env = accepting_env and d = example_data and st = example_state]
  by (simp add: write_fails_def failure_mode_def save_outcome_def refusing_env_def
      accepting_env_def server_replies_def server_down_def ok_def example_state_def
      example_values_def example_data_def bookingSchema_def bookingSchema_issues_def
      string_min_def)

section \<open>The generated id\<close>

lemma digit36_base36: "d < 36 \<Longrightarrow> is_base36 (digit36 d)"
  unfolding is_base36_def digit36_def by (rule nth_mem) simp

lemma generateId_eq: "generateId ds = take 8 (map digit36 ds)"
  by (simp add: generateId_def substr_def toString36_def)

text \<open>
  Claim C10. The generated id has at most 8 characters, namely as many as the rendering
  of the random number has digits after the point, up to 8; its characters are base-36
  digits. It is empty when the random number is 0 (rendered \<open>0\<close>), and it is the one
  character \<open>i\<close> when the random number is one half (rendered \<open>0.i\<close>), so a length of 8
  is not guaranteed.
\<close>

theorem generateId_shape:
  "length (generateId ds) \<le> 8 \<and>
   length (generateId ds) = min 8 (length ds) \<and>
   (list_all (\<lambda>d. d < 36) ds \<longrightarrow> list_all is_base36 (generateId ds)) \<and>
   generateId [] = [] \<and> generateId [18] = ''i''"
proof -
  have "list_all is_base36 (generateId ds)" if "list_all (\<lambda>d. d < 36) ds"
  proof -
    from that have "list_all is_base36 (map digit36 ds)"
      by (induction ds) (simp_all add: digit36_base36)
    then show ?thesis
      unfolding generateId_eq list_all_iff by (blast dest: in_set_takeD)
  qed
  moreover have "generateId [18] = ''i''"
    by (simp add: generateId_eq digit36_def)
  ultimately show ?thesis
    by (simp add: generateId_eq)
qed

theorem generateId_shape_witness:
  "list_all is_base36 (generateId [20, 3, 19, 9, 33, 2, 10, 11, 0, 7]) \<and>
   length (generateId [20, 3, 19, 9, 33, 2, 10, 11, 0, 7]) = 8 \<and>
   generateId [20, 3, 19, 9, 33, 2, 10, 11, 0, 7] = ''k3j9x2ab''"
  using generateId_shape [of "[20, 3, 19, 9, 33, 2, 10, 11, 0, 7]"]
  by (simp add: generateId_eq digit36_def)

end
